theory Spec2Isabelle
  imports Main "HOL-Library.Word"
begin

section \<open>The dynamic texture example extension\<close>

text \<open>
  A shallow embedding of \<^verbatim>\<open>extension.py\<close>: the two free functions
  \<^verbatim>\<open>create_textured_plane_prim\<close> and \<^verbatim>\<open>create_dynamic_texture\<close>, the button handler
  \<^verbatim>\<open>on_click_create\<close> and the lifecycle methods of \<^verbatim>\<open>DynamicTextureProviderExample\<close>.

  The source is a sequence of calls into three host libraries (the USD scene document,
  the image library and the texture provider of the UI toolkit). The host is modelled
  in two parts:
  \<^item> what a call does when it returns is written out: the scene document is a map from
    path strings to prims, an image is a record, a texture provider is a record;
  \<^item> the circumstances that make a call raise are read from a \<open>host\<close> record, over
    which every theorem quantifies: whether a document is open, whether its layer can be
    edited, which path strings the document rejects, what the image library and the
    texture provider raise.
  Python exceptions are values: a program maps a world to a result \<open>exn + 'a\<close> and the
  world it leaves behind, so that the state after a raise can be inspected.
\<close>

subsection \<open>Data\<close>

type_synonym path = string

type_synonym byte = "8 word"

datatype exn = Exception string

text \<open>Attribute values, one constructor for each value type the source authors.\<close>

datatype attr_value =
    Point3fArray "(int \<times> int \<times> int) list"
  | Float3Array "(int \<times> int \<times> int) list"
  | IntArray "int list"
  | TexCoord2fArray "(int \<times> int) list"
  | AssetVal string
  | TokenVal string

record prim =
  typeName :: string
  kind :: "string option"
  attrs :: "string \<rightharpoonup> attr_value"
  interpolation :: "string \<rightharpoonup> string"
  connections :: "string \<rightharpoonup> path \<times> string"
  apiSchemas :: "string list"
  material_binding :: "path option"

type_synonym usd_stage = "path \<rightharpoonup> prim"

text \<open>
  \<^verbatim>\<open>ui.TextureFormat\<close> is an enumeration of the host; the source names one member
  and points to the host's stub file for the others.
\<close>

datatype TextureFormat = RGBA8_UNORM | TextureFormat_other string

record image =
  mode :: string
  width :: int
  height :: int
  pixels :: "byte list"

record provider =
  tex_name :: string
  tex_bytes :: "int list"
  tex_resolution :: "int list"
  tex_format :: "TextureFormat option"

text \<open>
  The trace lists, oldest first, the host calls that define or remove prims, set the
  model kind, open a window, read or decode the image or touch a texture provider, and
  the assignments to the field \<^verbatim>\<open>self._texture\<close>. A call is recorded when it is made,
  whether or not it then raises. Attribute authoring is recorded in the stage only.
\<close>

datatype event =
    Ev_RemovePrim path
  | Ev_Define string path
  | Ev_SetKind path string
  | Ev_Window string int int
  | Ev_Image_open "string list"
  | Ev_convert string
  | Ev_DynamicTextureProvider string
  | Ev_set_bytes_data string "int list" "int list" TextureFormat
  | Ev_assign_texture "provider option"

record world =
  stage :: usd_stage
  self_texture :: "provider option"
  trace :: "event list"

text \<open>
  What the host decides.
  \<^item> \<open>stage_open\<close>: a document is open, so that \<^verbatim>\<open>get_stage()\<close> hands back a stage and
    not \<^verbatim>\<open>None\<close>.
  \<^item> \<open>layer_editable\<close>: the layer that receives the edits can be written.
  \<^item> \<open>invalid_path\<close>: what the document raises for a path string that is not a valid
    prim path.
  \<^item> \<open>module_dir\<close>: the resolved directory of the extension's own file, as a list of
    path components.
  \<^item> the results of opening and converting an image, and what the provider raises when
    it is handed bytes.
\<close>

record host =
  stage_open :: bool
  layer_editable :: bool
  invalid_path :: "path \<Rightarrow> exn option"
  module_dir :: "string list"
  Image_open_result :: "string list \<Rightarrow> exn + image"
  convert_result :: "image \<Rightarrow> string \<Rightarrow> exn + image"
  set_bytes_data_raises :: "int list \<Rightarrow> int list \<Rightarrow> TextureFormat \<Rightarrow> exn option"

subsection \<open>Programs with exceptions\<close>

type_synonym 'a prog = "world \<Rightarrow> (exn + 'a) \<times> world"

definition ret :: "'a \<Rightarrow> 'a prog" where
  "ret x w = (Inr x, w)"

definition throw :: "exn \<Rightarrow> 'a prog" where
  "throw e w = (Inl e, w)"

text \<open>Sequencing: a raise in the first part skips the second.\<close>

definition seq :: "'a prog \<Rightarrow> ('a \<Rightarrow> 'b prog) \<Rightarrow> 'b prog" where
  "seq m f w = (case m w of (Inl e, w') \<Rightarrow> (Inl e, w') | (Inr x, w') \<Rightarrow> f x w')"

text \<open>
  \<^verbatim>\<open>try: m  except: handler\<close> with a bare \<^verbatim>\<open>except\<close>: every exception is caught, and
  what the body did before it raised stays done.
\<close>

definition try_except :: "'a prog \<Rightarrow> 'a prog \<Rightarrow> 'a prog" where
  "try_except m handler w = (case m w of (Inl e, w') \<Rightarrow> handler w' | (Inr x, w') \<Rightarrow> (Inr x, w'))"

definition record_event :: "event \<Rightarrow> world \<Rightarrow> world" where
  "record_event ev w = w\<lparr>trace := trace w @ [ev]\<rparr>"

text \<open>The assignment \<^verbatim>\<open>self._texture = v\<close>.\<close>

definition assign_texture :: "provider option \<Rightarrow> unit prog" where
  "assign_texture v w = (Inr (), (record_event (Ev_assign_texture v) w)\<lparr>self_texture := v\<rparr>)"

subsection \<open>The scene document\<close>

definition new_prim :: "string \<Rightarrow> prim" where
  "new_prim ty = \<lparr>typeName = ty, kind = None, attrs = Map.empty, interpolation = Map.empty,
     connections = Map.empty, apiSchemas = [], material_binding = None\<rparr>"

text \<open>
  \<^verbatim>\<open>Schema.Define(stage, path)\<close> returns the prim at the path, creating it when there is
  none and giving it the schema's type; a prim that is already there keeps its
  properties. The handle it returns is the path. The typeless ancestors that USD
  authors along the way are not tracked.

  \<open>Define_raises\<close> is the exception with which the host refuses to author a prim at a
  path: no document is open, the path is not a valid prim path, or the layer cannot be
  edited. \<^verbatim>\<open>Define\<close> raises it, unless the layer is the only obstacle and the prim is
  already there with the schema's type: then nothing has to be authored and the prim is
  handed back.
\<close>

definition Define_raises :: "host \<Rightarrow> path \<Rightarrow> exn option" where
  "Define_raises h p =
     (if \<not> stage_open h then Some (Exception ''invalid stage'')
      else case invalid_path h p of
        Some e \<Rightarrow> Some e
      | None \<Rightarrow> if layer_editable h then None else Some (Exception ''layer not editable''))"

definition already_defined :: "string \<Rightarrow> prim option \<Rightarrow> bool" where
  "already_defined ty old = (case old of None \<Rightarrow> False | Some pr \<Rightarrow> typeName pr = ty)"

definition defined_as :: "string \<Rightarrow> prim option \<Rightarrow> prim" where
  "defined_as ty old = (case old of None \<Rightarrow> new_prim ty | Some pr \<Rightarrow> pr\<lparr>typeName := ty\<rparr>)"

definition define_prim :: "string \<Rightarrow> path \<Rightarrow> usd_stage \<Rightarrow> usd_stage" where
  "define_prim ty p s = s(p \<mapsto> defined_as ty (s p))"

definition Define :: "host \<Rightarrow> string \<Rightarrow> path \<Rightarrow> path prog" where
  "Define h ty p w =
     (let w1 = record_event (Ev_Define ty p) w in
      case Define_raises h p of
        None \<Rightarrow> (Inr p, w1\<lparr>stage := define_prim ty p (stage w1)\<rparr>)
      | Some e \<Rightarrow>
          if stage_open h \<and> invalid_path h p = None \<and> already_defined ty (stage w1 p)
          then (Inr p, w1)
          else (Inl e, w1))"

text \<open>A path lies in the subtree of \<open>t\<close> when it is \<open>t\<close> or continues \<open>t\<close> after a slash.\<close>

definition in_subtree :: "path \<Rightarrow> path \<Rightarrow> bool" where
  "in_subtree t p \<longleftrightarrow> p = t \<or> take (Suc (length t)) p = t @ ''/''"

definition remove_subtree :: "path \<Rightarrow> usd_stage \<Rightarrow> usd_stage" where
  "remove_subtree t s = (\<lambda>p. if in_subtree t p then None else s p)"

text \<open>
  \<^verbatim>\<open>stage.RemovePrim(path)\<close> removes the prim and everything below it. With no prim at
  the path it changes nothing and returns. It raises when \<^verbatim>\<open>stage\<close> is \<^verbatim>\<open>None\<close>, and
  when there is a prim to remove and the layer cannot be edited.
\<close>

definition RemovePrim_raises :: "host \<Rightarrow> usd_stage \<Rightarrow> path \<Rightarrow> exn option" where
  "RemovePrim_raises h s p =
     (if \<not> stage_open h then Some (Exception ''AttributeError'')
      else if s p \<noteq> None \<and> \<not> layer_editable h then Some (Exception ''layer not editable'')
      else None)"

definition RemovePrim :: "host \<Rightarrow> path \<Rightarrow> unit prog" where
  "RemovePrim h p w =
     (let w1 = record_event (Ev_RemovePrim p) w in
      case RemovePrim_raises h (stage w1) p of
        Some e \<Rightarrow> (Inl e, w1)
      | None \<Rightarrow> (Inr (), w1\<lparr>stage := remove_subtree p (stage w1)\<rparr>))"

text \<open>
  Authoring on a prim handle changes the prim at that path. The host raises on a handle
  with no prim behind it, and when the layer cannot be edited.
\<close>

definition author :: "host \<Rightarrow> path \<Rightarrow> (prim \<Rightarrow> prim) \<Rightarrow> unit prog" where
  "author h p f w =
     (case stage w p of
        None \<Rightarrow> (Inl (Exception ''invalid prim''), w)
      | Some pr \<Rightarrow>
          if layer_editable h then (Inr (), w\<lparr>stage := (stage w)(p \<mapsto> f pr)\<rparr>)
          else (Inl (Exception ''layer not editable''), w))"

definition set_attr :: "string \<Rightarrow> attr_value \<Rightarrow> prim \<Rightarrow> prim" where
  "set_attr a v pr = pr\<lparr>attrs := (attrs pr)(a \<mapsto> v)\<rparr>"

definition SetKind :: "host \<Rightarrow> path \<Rightarrow> string \<Rightarrow> unit prog" where
  "SetKind h p k w = author h p (\<lambda>pr. pr\<lparr>kind := Some k\<rparr>) (record_event (Ev_SetKind p k) w)"

definition CreatePointsAttr :: "host \<Rightarrow> path \<Rightarrow> (int \<times> int \<times> int) list \<Rightarrow> unit prog" where
  "CreatePointsAttr h p v = author h p (set_attr ''points'' (Point3fArray v))"

definition CreateFaceVertexCountsAttr :: "host \<Rightarrow> path \<Rightarrow> int list \<Rightarrow> unit prog" where
  "CreateFaceVertexCountsAttr h p v = author h p (set_attr ''faceVertexCounts'' (IntArray v))"

definition CreateFaceVertexIndicesAttr :: "host \<Rightarrow> path \<Rightarrow> int list \<Rightarrow> unit prog" where
  "CreateFaceVertexIndicesAttr h p v = author h p (set_attr ''faceVertexIndices'' (IntArray v))"

definition CreateExtentAttr :: "host \<Rightarrow> path \<Rightarrow> (int \<times> int \<times> int) list \<Rightarrow> unit prog" where
  "CreateExtentAttr h p v = author h p (set_attr ''extent'' (Float3Array v))"

text \<open>
  \<^verbatim>\<open>CreatePrimvar\<close>, \<^verbatim>\<open>CreateInput\<close> and \<^verbatim>\<open>CreateSurfaceOutput\<close> return a handle on
  a property: the prim's path and the property's name. \<^verbatim>\<open>Set\<close> stores a value through
  such a handle; the value type declared at creation is the constructor of the value
  stored. A property created without a value has no entry in \<open>attrs\<close> until one is set.
\<close>

definition CreatePrimvar :: "host \<Rightarrow> path \<Rightarrow> string \<Rightarrow> string \<Rightarrow> (path \<times> string) prog" where
  "CreatePrimvar h p name interp =
     seq (author h p (\<lambda>pr. pr\<lparr>interpolation := (interpolation pr)(''primvars:'' @ name \<mapsto> interp)\<rparr>))
       (\<lambda>_. ret (p, ''primvars:'' @ name))"

definition CreateInput :: "host \<Rightarrow> path \<Rightarrow> string \<Rightarrow> (path \<times> string) prog" where
  "CreateInput h p name = seq (author h p (\<lambda>pr. pr)) (\<lambda>_. ret (p, ''inputs:'' @ name))"

definition Set_value :: "host \<Rightarrow> path \<times> string \<Rightarrow> attr_value \<Rightarrow> unit prog" where
  "Set_value h handle v = author h (fst handle) (set_attr (snd handle) v)"

definition SetSourceAsset :: "host \<Rightarrow> path \<Rightarrow> string \<Rightarrow> string \<Rightarrow> unit prog" where
  "SetSourceAsset h p asset sourceType =
     author h p (\<lambda>pr. set_attr (''info:'' @ sourceType @ '':sourceAsset'') (AssetVal asset)
                     (set_attr ''info:implementationSource'' (TokenVal ''sourceAsset'') pr))"

definition SetSourceAssetSubIdentifier :: "host \<Rightarrow> path \<Rightarrow> string \<Rightarrow> string \<Rightarrow> unit prog" where
  "SetSourceAssetSubIdentifier h p subId sourceType =
     author h p (set_attr (''info:'' @ sourceType @ '':sourceAsset:subIdentifier'') (TokenVal subId))"

definition CreateIdAttr :: "host \<Rightarrow> path \<Rightarrow> string \<Rightarrow> unit prog" where
  "CreateIdAttr h p v = author h p (set_attr ''info:id'' (TokenVal v))"

definition CreateSurfaceOutput :: "host \<Rightarrow> path \<Rightarrow> (path \<times> string) prog" where
  "CreateSurfaceOutput h p = seq (author h p (\<lambda>pr. pr)) (\<lambda>_. ret (p, ''outputs:surface''))"

definition ConnectToSource :: "host \<Rightarrow> path \<times> string \<Rightarrow> path \<Rightarrow> string \<Rightarrow> unit prog" where
  "ConnectToSource h handle source sourceName =
     author h (fst handle)
       (\<lambda>pr. pr\<lparr>connections := (connections pr)(snd handle \<mapsto> (source, sourceName))\<rparr>)"

definition ApplyAPI :: "host \<Rightarrow> path \<Rightarrow> string \<Rightarrow> unit prog" where
  "ApplyAPI h p api =
     author h p (\<lambda>pr. if api \<in> set (apiSchemas pr) then pr
                     else pr\<lparr>apiSchemas := apiSchemas pr @ [api]\<rparr>)"

definition Bind :: "host \<Rightarrow> path \<Rightarrow> path \<Rightarrow> unit prog" where
  "Bind h p material = author h p (\<lambda>pr. pr\<lparr>material_binding := Some material\<rparr>)"

subsection \<open>The image library and the texture provider\<close>

definition Image_open :: "host \<Rightarrow> string list \<Rightarrow> image prog" where
  "Image_open h fp w =
     (case Image_open_result h fp of
        Inl e \<Rightarrow> (Inl e, record_event (Ev_Image_open fp) w)
      | Inr img \<Rightarrow> (Inr img, record_event (Ev_Image_open fp) w))"

definition convert :: "host \<Rightarrow> image \<Rightarrow> string \<Rightarrow> image prog" where
  "convert h img m w =
     (case convert_result h img m of
        Inl e \<Rightarrow> (Inl e, record_event (Ev_convert m) w)
      | Inr img' \<Rightarrow> (Inr img', record_event (Ev_convert m) w))"

definition tobytes :: "image \<Rightarrow> byte list" where
  "tobytes img = pixels img"

definition joinpath :: "string list \<Rightarrow> string \<Rightarrow> string list" where
  "joinpath dir name = dir @ [name]"

definition DynamicTextureProvider :: "string \<Rightarrow> provider prog" where
  "DynamicTextureProvider name w =
     (Inr \<lparr>tex_name = name, tex_bytes = [], tex_resolution = [], tex_format = None\<rparr>,
      record_event (Ev_DynamicTextureProvider name) w)"

definition set_bytes_data ::
  "host \<Rightarrow> provider \<Rightarrow> int list \<Rightarrow> int list \<Rightarrow> TextureFormat \<Rightarrow> provider prog" where
  "set_bytes_data h dtp bytes_list res fmt w =
     (let w1 = record_event (Ev_set_bytes_data (tex_name dtp) bytes_list res fmt) w in
      case set_bytes_data_raises h bytes_list res fmt of
        Some e \<Rightarrow> (Inl e, w1)
      | None \<Rightarrow> (Inr (dtp\<lparr>tex_bytes := bytes_list, tex_resolution := res, tex_format := Some fmt\<rparr>), w1))"

subsection \<open>The functions of the extension\<close>

text \<open>
  \<^verbatim>\<open>create_textured_plane_prim(stage, prim_path, texture_name)\<close>. The stage argument is
  the document of the world; the mesh handle \<^verbatim>\<open>billboard\<close> is the mesh's path.
\<close>

definition create_textured_plane_prim :: "host \<Rightarrow> path \<Rightarrow> string \<Rightarrow> path prog" where
  "create_textured_plane_prim h prim_path texture_name =
     seq (Define h ''Mesh'' (prim_path @ ''/Mesh'')) (\<lambda>billboard.
     seq (CreatePointsAttr h billboard [(-430, -145, 0), (430, -145, 0), (430, 145, 0), (-430, 145, 0)]) (\<lambda>_.
     seq (CreateFaceVertexCountsAttr h billboard [4]) (\<lambda>_.
     seq (CreateFaceVertexIndicesAttr h billboard [0, 1, 2, 3]) (\<lambda>_.
     seq (CreateExtentAttr h billboard [(-430, -145, 0), (430, 145, 0)]) (\<lambda>_.
     seq (CreatePrimvar h billboard ''st'' ''varying'') (\<lambda>texCoords.
     seq (Set_value h texCoords (TexCoord2fArray [(0, 0), (1, 0), (1, 1), (0, 1)])) (\<lambda>_.
     let material_path = prim_path @ ''/Material'' in
     seq (Define h ''Material'' material_path) (\<lambda>material.
     seq (Define h ''Shader'' (material_path @ ''/Shader'')) (\<lambda>shader.
     seq (SetSourceAsset h shader ''OmniPBR.mdl'' ''mdl'') (\<lambda>_.
     seq (SetSourceAssetSubIdentifier h shader ''OmniPBR'' ''mdl'') (\<lambda>_.
     seq (CreateIdAttr h shader ''OmniPBR'') (\<lambda>_.
     seq (CreateInput h shader ''diffuse_texture'') (\<lambda>input.
     seq (Set_value h input (AssetVal (''dynamic://'' @ texture_name))) (\<lambda>_.
     seq (CreateSurfaceOutput h material) (\<lambda>output.
     seq (ConnectToSource h output shader ''surface'') (\<lambda>_.
     seq (ApplyAPI h billboard ''MaterialBindingAPI'') (\<lambda>_.
     seq (Bind h billboard material) (\<lambda>_.
     ret billboard))))))))))))))))))"

text \<open>
  \<^verbatim>\<open>create_dynamic_texture(texture_name, bytes, resolution, format)\<close>:
  \<^verbatim>\<open>list(bytes)\<close> is the list of the byte values, \<^verbatim>\<open>list(resolution)\<close> the two-element
  list of the pair.
\<close>

definition create_dynamic_texture ::
  "host \<Rightarrow> string \<Rightarrow> byte list \<Rightarrow> int \<times> int \<Rightarrow> TextureFormat \<Rightarrow> provider prog" where
  "create_dynamic_texture h texture_name bytes resolution format =
     (let bytes_list = map uint bytes in
      seq (DynamicTextureProvider texture_name) (\<lambda>dtp.
      seq (set_bytes_data h dtp bytes_list [fst resolution, snd resolution] format) (\<lambda>dtp.
      ret dtp)))"

text \<open>
  The button handler \<^verbatim>\<open>on_click_create\<close>, defined inside \<^verbatim>\<open>on_startup\<close>. The stage
  that \<^verbatim>\<open>omni.usd.get_context().get_stage()\<close> hands back is the document of the world, or
  \<^verbatim>\<open>None\<close> on a host with no document open, where \<^verbatim>\<open>stage.RemovePrim\<close> and the
  \<^verbatim>\<open>Define\<close> on it raise. \<^verbatim>\<open>pathlib.Path(__file__).parent.resolve()\<close> is the host's
  \<open>module_dir\<close>.
\<close>

definition on_click_create :: "host \<Rightarrow> unit prog" where
  "on_click_create h =
     (let name = ''Thing'';
          image_name = name;
          prim_path = ''/World/'' @ name in
      seq (try_except
             (seq (RemovePrim h prim_path) (\<lambda>_. assign_texture None))
             (ret ())) (\<lambda>_.
      seq (Define h ''Xform'' prim_path) (\<lambda>model_root.
      seq (SetKind h model_root ''component'') (\<lambda>_.
      seq (create_textured_plane_prim h prim_path image_name) (\<lambda>_.
      let dir = module_dir h;
          image_path = joinpath dir ''cat.jpg'' in
      seq (Image_open h image_path) (\<lambda>image.
      seq (convert h image ''RGBA'') (\<lambda>image.
      let image_bytes = tobytes image;
          image_resolution = (width image, height image);
          image_format = RGBA8_UNORM in
      seq (create_dynamic_texture h image_name image_bytes image_resolution image_format) (\<lambda>dtp.
      assign_texture (Some dtp)))))))))"

text \<open>\<^verbatim>\<open>on_shutdown\<close>.\<close>

definition on_shutdown :: "unit prog" where
  "on_shutdown = assign_texture None"

text \<open>
  \<^verbatim>\<open>on_startup\<close>. Its last statement is the \<^verbatim>\<open>def\<close> of the handler; the call
  \<^verbatim>\<open>ui.Button("Create", clicked_fn=on_click_create)\<close> comes before it. The name
  \<^verbatim>\<open>on_click_create\<close> is a local of \<^verbatim>\<open>on_startup\<close>, since the \<^verbatim>\<open>def\<close> binds it
  there, and it is read before that \<^verbatim>\<open>def\<close> has run.
\<close>

definition Window :: "string \<Rightarrow> int \<Rightarrow> int \<Rightarrow> unit prog" where
  "Window title wd ht w = (Inr (), record_event (Ev_Window title wd ht) w)"

definition on_startup :: "string \<Rightarrow> unit prog" where
  "on_startup ext_id =
     seq (assign_texture None) (\<lambda>_.
     seq (Window ''Create Dynamic Texture Provider Example'' 300 300) (\<lambda>_.
     throw (Exception ''UnboundLocalError'')))"

subsection \<open>Notions used in the statements\<close>

text \<open>The host accepts authoring at the four paths a click defines.\<close>

definition accepts_authoring :: "host \<Rightarrow> bool" where
  "accepts_authoring h \<longleftrightarrow>
     Define_raises h ''/World/Thing'' = None \<and>
     Define_raises h ''/World/Thing/Mesh'' = None \<and>
     Define_raises h ''/World/Thing/Material'' = None \<and>
     Define_raises h ''/World/Thing/Material/Shader'' = None"

text \<open>
  The first exception, if any, that the host raises in the three steps after the build:
  opening the image, converting it, handing the bytes to the provider.
\<close>

definition media_failure :: "host \<Rightarrow> exn option" where
  "media_failure h =
     (case Image_open_result h (joinpath (module_dir h) ''cat.jpg'') of
        Inl e \<Rightarrow> Some e
      | Inr img \<Rightarrow>
          (case convert_result h img ''RGBA'' of
             Inl e \<Rightarrow> Some e
           | Inr rgba \<Rightarrow>
               set_bytes_data_raises h (map uint (tobytes rgba)) [width rgba, height rgba]
                 RGBA8_UNORM))"

text \<open>
  The handler's \<^verbatim>\<open>try\<close> statement, its two statements that create the root, and the
  world in which it calls the plane builder.
\<close>

abbreviation removal :: "host \<Rightarrow> path \<Rightarrow> unit prog" where
  "removal h p \<equiv> try_except (seq (RemovePrim h p) (\<lambda>_. assign_texture None)) (ret ())"

definition root_step :: "host \<Rightarrow> unit prog" where
  "root_step h =
     seq (Define h ''Xform'' ''/World/Thing'') (\<lambda>model_root. SetKind h model_root ''component'')"

definition before_build :: "host \<Rightarrow> world \<Rightarrow> world" where
  "before_build h w = snd (root_step h (snd (removal h ''/World/Thing'' w)))"

subsection \<open>Example hosts and worlds\<close>

text \<open>
  Concrete hosts on which the theorems below are exercised. On \<open>quiet_host\<close> no call
  raises. On \<open>no_file_host\<close> the image file is missing. On \<open>closed_host\<close> no document
  is open. On \<open>readonly_host\<close> the layer cannot be edited.
\<close>

definition cat_jpg :: image where
  "cat_jpg = \<lparr>mode = ''RGB'', width = 1, height = 1, pixels = [10, 20, 30]\<rparr>"

definition cat_rgba :: image where
  "cat_rgba = \<lparr>mode = ''RGBA'', width = 1, height = 1, pixels = [10, 20, 30, 255]\<rparr>"

definition quiet_host :: host where
  "quiet_host = \<lparr>stage_open = True, layer_editable = True, invalid_path = (\<lambda>p. None),
     module_dir = [''exts'', ''dynamic_texture_example''],
     Image_open_result = (\<lambda>fp. Inr cat_jpg), convert_result = (\<lambda>img m. Inr cat_rgba),
     set_bytes_data_raises = (\<lambda>b r f. None)\<rparr>"

definition no_file_host :: host where
  "no_file_host = quiet_host\<lparr>Image_open_result := (\<lambda>fp. Inl (Exception ''FileNotFoundError''))\<rparr>"

definition closed_host :: host where
  "closed_host = quiet_host\<lparr>stage_open := False\<rparr>"

definition readonly_host :: host where
  "readonly_host = quiet_host\<lparr>layer_editable := False\<rparr>"

definition fresh_world :: world where
  "fresh_world = \<lparr>stage = Map.empty, self_texture = None, trace = []\<rparr>"

definition old_texture :: provider where
  "old_texture = \<lparr>tex_name = ''Thing'', tex_bytes = [10, 20, 30, 255], tex_resolution = [1, 1],
     tex_format = Some RGBA8_UNORM\<rparr>"

text \<open>The world after a successful click followed by opening a new, empty document.\<close>

definition reopened_world :: world where
  "reopened_world = \<lparr>stage = Map.empty, self_texture = Some old_texture, trace = []\<rparr>"

text \<open>A world with a handle stored and the root of an earlier click still in the document.\<close>

definition clicked_world :: world where
  "clicked_world = \<lparr>stage = [''/World/Thing'' \<mapsto> (new_prim ''Xform'')\<lparr>kind := Some ''component''\<rparr>],
     self_texture = Some old_texture, trace = []\<rparr>"

section \<open>Properties\<close>

subsection \<open>Unfolding\<close>

lemma typeName_defined_as [simp]: "typeName (defined_as ty old) = ty"
  by (simp add: defined_as_def new_prim_def split: option.split)

lemmas prog_defs = seq_def ret_def throw_def try_except_def record_event_def assign_texture_def

lemmas stage_defs = Define_def define_prim_def RemovePrim_def author_def set_attr_def SetKind_def
  CreatePointsAttr_def CreateFaceVertexCountsAttr_def CreateFaceVertexIndicesAttr_def
  CreateExtentAttr_def CreatePrimvar_def CreateInput_def Set_value_def SetSourceAsset_def
  SetSourceAssetSubIdentifier_def CreateIdAttr_def CreateSurfaceOutput_def ConnectToSource_def
  ApplyAPI_def Bind_def

lemmas media_defs = Image_open_def convert_def tobytes_def joinpath_def
  DynamicTextureProvider_def set_bytes_data_def create_dynamic_texture_def

lemmas example_defs = quiet_host_def no_file_host_def closed_host_def readonly_host_def
  fresh_world_def reopened_world_def clicked_world_def old_texture_def cat_jpg_def cat_rgba_def

lemmas host_defs = Define_raises_def RemovePrim_raises_def already_defined_def

lemmas plane_unfold = create_textured_plane_prim_def prog_defs stage_defs Let_def

lemma Define_raises_None:
  "Define_raises h p = None \<longleftrightarrow> stage_open h \<and> layer_editable h \<and> invalid_path h p = None"
  by (simp add: Define_raises_def split: option.split)

lemma Define_raises_editable: "Define_raises h p = None \<Longrightarrow> layer_editable h"
  by (simp add: Define_raises_None)

subsection \<open>What each step returns and leaves behind\<close>

text \<open>
  Result, trace, stored handle and document after each step of the handler, for every
  host. With these the handler is followed step by step, without building the whole
  world after it as one term.
\<close>

lemma seq_alt:
  "seq m f w = (case fst (m w) of Inl e \<Rightarrow> (Inl e, snd (m w)) | Inr x \<Rightarrow> f x (snd (m w)))"
  by (simp add: seq_def split: prod.split sum.split)

lemma removal_fst: "fst (removal h p w) = Inr ()"
  by (simp add: prog_defs RemovePrim_def Let_def split: option.split)

lemma removal_trace:
  "trace (snd (removal h p w)) = trace w @ Ev_RemovePrim p #
     (case RemovePrim_raises h (stage w) p of None \<Rightarrow> [Ev_assign_texture None] | Some e \<Rightarrow> [])"
  by (simp add: prog_defs RemovePrim_def Let_def split: option.split)

lemma removal_texture:
  "self_texture (snd (removal h p w)) =
     (case RemovePrim_raises h (stage w) p of None \<Rightarrow> None | Some e \<Rightarrow> self_texture w)"
  by (simp add: prog_defs RemovePrim_def Let_def split: option.split)

lemma removal_stage:
  "stage (snd (removal h p w)) =
     (case RemovePrim_raises h (stage w) p of
        None \<Rightarrow> remove_subtree p (stage w) | Some e \<Rightarrow> stage w)"
  by (simp add: prog_defs RemovePrim_def Let_def split: option.split)

lemma Define_fst:
  "fst (Define h ty p w) =
     (case Define_raises h p of
        None \<Rightarrow> Inr p
      | Some e \<Rightarrow>
          if stage_open h \<and> invalid_path h p = None \<and> already_defined ty (stage w p)
          then Inr p else Inl e)"
  by (cases "Define_raises h p") (simp_all add: Define_def record_event_def Let_def)

lemma Define_trace: "trace (snd (Define h ty p w)) = trace w @ [Ev_Define ty p]"
  by (cases "Define_raises h p") (simp_all add: Define_def record_event_def Let_def)

lemma Define_texture: "self_texture (snd (Define h ty p w)) = self_texture w"
  by (cases "Define_raises h p") (simp_all add: Define_def record_event_def Let_def)

lemma Define_stage:
  "stage (snd (Define h ty p w)) =
     (case Define_raises h p of
        None \<Rightarrow> (stage w)(p \<mapsto> defined_as ty (stage w p)) | Some e \<Rightarrow> stage w)"
  by (cases "Define_raises h p") (simp_all add: Define_def define_prim_def record_event_def Let_def)

lemma SetKind_fst:
  "fst (SetKind h p k w) =
     (case stage w p of
        None \<Rightarrow> Inl (Exception ''invalid prim'')
      | Some pr \<Rightarrow> if layer_editable h then Inr () else Inl (Exception ''layer not editable''))"
  by (simp add: SetKind_def author_def record_event_def split: option.split)

lemma SetKind_trace: "trace (snd (SetKind h p k w)) = trace w @ [Ev_SetKind p k]"
  by (simp add: SetKind_def author_def record_event_def split: option.split)

lemma SetKind_texture: "self_texture (snd (SetKind h p k w)) = self_texture w"
  by (simp add: SetKind_def author_def record_event_def split: option.split)

lemma SetKind_stage:
  "stage (snd (SetKind h p k w)) =
     (case stage w p of
        None \<Rightarrow> stage w
      | Some pr \<Rightarrow> if layer_editable h then (stage w)(p \<mapsto> pr\<lparr>kind := Some k\<rparr>) else stage w)"
  by (simp add: SetKind_def author_def record_event_def split: option.split)

lemma Image_open_fst: "fst (Image_open h fp w) = Image_open_result h fp"
  by (simp add: Image_open_def split: sum.split)

lemma Image_open_snd: "snd (Image_open h fp w) = record_event (Ev_Image_open fp) w"
  by (simp add: Image_open_def split: sum.split)

lemma convert_fst: "fst (convert h img m w) = convert_result h img m"
  by (simp add: convert_def split: sum.split)

lemma convert_snd: "snd (convert h img m w) = record_event (Ev_convert m) w"
  by (simp add: convert_def split: sum.split)

lemma create_dynamic_texture_fst:
  "fst (create_dynamic_texture h n bs res fmt w) =
     (case set_bytes_data_raises h (map uint bs) [fst res, snd res] fmt of
        Some e \<Rightarrow> Inl e
      | None \<Rightarrow> Inr \<lparr>tex_name = n, tex_bytes = map uint bs,
                      tex_resolution = [fst res, snd res], tex_format = Some fmt\<rparr>)"
  by (simp add: media_defs prog_defs Let_def split: option.split)

lemma create_dynamic_texture_snd:
  "snd (create_dynamic_texture h n bs res fmt w) =
     w\<lparr>trace := trace w @ [Ev_DynamicTextureProvider n,
          Ev_set_bytes_data n (map uint bs) [fst res, snd res] fmt]\<rparr>"
  by (simp add: media_defs prog_defs Let_def split: option.split)

lemma assign_texture_fst: "fst (assign_texture v w) = Inr ()"
  by (simp add: assign_texture_def)

lemma assign_texture_snd:
  "snd (assign_texture v w) = w\<lparr>trace := trace w @ [Ev_assign_texture v], self_texture := v\<rparr>"
  by (simp add: assign_texture_def record_event_def)

lemma seq_assoc: "seq (seq m f) g = seq m (\<lambda>x. seq (f x) g)"
  by (rule ext) (simp add: seq_def split: prod.split sum.split)

text \<open>
  The two statements that create the root. Where the layer is the only obstacle and an
  \<open>Xform\<close> is already at the path, \<^verbatim>\<open>Define\<close> hands it back and \<^verbatim>\<open>SetKind\<close> raises.
\<close>

lemma root_fst:
  "fst (root_step h w) = (case Define_raises h ''/World/Thing'' of None \<Rightarrow> Inr () | Some e \<Rightarrow> Inl e)"
  by (cases "stage_open h"; cases "layer_editable h"; cases "invalid_path h ''/World/Thing''")
     (simp_all add: root_step_def seq_alt Define_fst Define_stage SetKind_fst host_defs
       split: option.split)

lemma root_trace:
  "trace (snd (root_step h w)) = trace w @ Ev_Define ''Xform'' ''/World/Thing'' #
     (if fst (Define h ''Xform'' ''/World/Thing'' w) = Inr ''/World/Thing''
      then [Ev_SetKind ''/World/Thing'' ''component''] else [])"
  by (cases "fst (Define h ''Xform'' ''/World/Thing'' w)")
     (simp_all add: root_step_def seq_alt Define_trace SetKind_trace Define_fst
       split: option.split_asm if_split_asm)

lemma root_texture: "self_texture (snd (root_step h w)) = self_texture w"
  by (cases "fst (Define h ''Xform'' ''/World/Thing'' w)")
     (simp_all add: root_step_def seq_alt Define_texture SetKind_texture)

lemma root_stage:
  "stage (snd (root_step h w)) =
     (case Define_raises h ''/World/Thing'' of
        None \<Rightarrow> (stage w)(''/World/Thing'' \<mapsto>
          (defined_as ''Xform'' (stage w ''/World/Thing''))\<lparr>kind := Some ''component''\<rparr>)
      | Some e \<Rightarrow> stage w)"
  by (cases "stage_open h"; cases "layer_editable h"; cases "invalid_path h ''/World/Thing''")
     (simp_all add: root_step_def seq_alt Define_fst Define_stage SetKind_stage host_defs
       split: option.split)

text \<open>
  The plane builder, for every host: it raises at the first of its three definitions
  that the host refuses, leaves the stored handle alone, and touches no prim but its
  three.
\<close>

lemma plane_fst:
  "fst (create_textured_plane_prim h p t w) =
     (case Define_raises h (p @ ''/Mesh'') of Some e \<Rightarrow> Inl e | None \<Rightarrow>
      (case Define_raises h (p @ ''/Material'') of Some e \<Rightarrow> Inl e | None \<Rightarrow>
       (case Define_raises h (p @ ''/Material/Shader'') of Some e \<Rightarrow> Inl e | None \<Rightarrow>
          Inr (p @ ''/Mesh''))))"
  by (cases "stage_open h"; cases "layer_editable h"; cases "invalid_path h (p @ ''/Mesh'')";
      cases "invalid_path h (p @ ''/Material'')"; cases "invalid_path h (p @ ''/Material/Shader'')";
      simp add: plane_unfold Define_raises_def already_defined_def split: option.split)

lemma plane_trace:
  "trace (snd (create_textured_plane_prim h p t w)) =
     trace w @ Ev_Define ''Mesh'' (p @ ''/Mesh'') #
     (case Define_raises h (p @ ''/Mesh'') of Some e \<Rightarrow> [] | None \<Rightarrow>
        Ev_Define ''Material'' (p @ ''/Material'') #
        (case Define_raises h (p @ ''/Material'') of Some e \<Rightarrow> [] | None \<Rightarrow>
           [Ev_Define ''Shader'' (p @ ''/Material/Shader'')]))"
  by (cases "stage_open h"; cases "layer_editable h"; cases "invalid_path h (p @ ''/Mesh'')";
      cases "invalid_path h (p @ ''/Material'')"; cases "invalid_path h (p @ ''/Material/Shader'')";
      simp add: plane_unfold Define_raises_def already_defined_def split: option.split)

lemma plane_texture:
  "self_texture (snd (create_textured_plane_prim h p t w)) = self_texture w"
  by (cases "stage_open h"; cases "layer_editable h"; cases "invalid_path h (p @ ''/Mesh'')";
      cases "invalid_path h (p @ ''/Material'')"; cases "invalid_path h (p @ ''/Material/Shader'')";
      simp add: plane_unfold Define_raises_def already_defined_def split: option.split)

lemma plane_stage_frame:
  assumes "q \<noteq> p @ ''/Mesh''" "q \<noteq> p @ ''/Material''" "q \<noteq> p @ ''/Material/Shader''"
  shows "stage (snd (create_textured_plane_prim h p t w)) q = stage w q"
  using assms
  by (cases "stage_open h"; cases "layer_editable h"; cases "invalid_path h (p @ ''/Mesh'')";
      cases "invalid_path h (p @ ''/Material'')"; cases "invalid_path h (p @ ''/Material/Shader'')";
      simp add: plane_unfold Define_raises_def already_defined_def split: option.split)

text \<open>The plane builder on a host that accepts its three paths.\<close>

lemma plane_shader:
  assumes "Define_raises h (p @ ''/Mesh'') = None" "Define_raises h (p @ ''/Material'') = None"
    "Define_raises h (p @ ''/Material/Shader'') = None"
  shows "\<exists>pr. stage (snd (create_textured_plane_prim h p t w)) (p @ ''/Material/Shader'') = Some pr \<and>
     typeName pr = ''Shader'' \<and>
     attrs pr ''inputs:diffuse_texture'' = Some (AssetVal (''dynamic://'' @ t))"
  using assms Define_raises_editable [OF assms(1)] by (simp add: plane_unfold)

lemma plane_mesh:
  assumes "Define_raises h (p @ ''/Mesh'') = None" "Define_raises h (p @ ''/Material'') = None"
    "Define_raises h (p @ ''/Material/Shader'') = None"
  shows "\<exists>pr. stage (snd (create_textured_plane_prim h p t w)) (p @ ''/Mesh'') = Some pr \<and>
     typeName pr = ''Mesh'' \<and> material_binding pr = Some (p @ ''/Material'')"
  using assms Define_raises_editable [OF assms(1)] by (simp add: plane_unfold)

lemma plane_material:
  assumes "Define_raises h (p @ ''/Mesh'') = None" "Define_raises h (p @ ''/Material'') = None"
    "Define_raises h (p @ ''/Material/Shader'') = None"
  shows "\<exists>pr. stage (snd (create_textured_plane_prim h p t w)) (p @ ''/Material'') = Some pr \<and>
     typeName pr = ''Material'' \<and>
     connections pr ''outputs:surface'' = Some (p @ ''/Material/Shader'', ''surface'')"
  using assms Define_raises_editable [OF assms(1)] by (simp add: plane_unfold)

lemma plane_dom:
  assumes "Define_raises h (p @ ''/Mesh'') = None" "Define_raises h (p @ ''/Material'') = None"
    "Define_raises h (p @ ''/Material/Shader'') = None"
  shows "dom (stage (snd (create_textured_plane_prim h p t w))) =
     insert (p @ ''/Mesh'') (insert (p @ ''/Material'')
       (insert (p @ ''/Material/Shader'') (dom (stage w))))"
  using assms Define_raises_editable [OF assms(1)] by (auto simp add: plane_unfold)

subsection \<open>The plane builder\<close>

text \<open>
  C1. When the host accepts authoring at the three paths the builder defines,
  \<^verbatim>\<open>create_textured_plane_prim\<close> returns the mesh handle, and afterwards the prim at
  \<open>prim_path/Material/Shader\<close> is a shader whose \<open>diffuse_texture\<close> input holds the asset
  path \<open>dynamic://\<close> followed by the texture name, for every starting document, path and
  texture name.
\<close>

theorem create_textured_plane_prim_shader_uri:
  assumes "Define_raises h (prim_path @ ''/Mesh'') = None"
    and "Define_raises h (prim_path @ ''/Material'') = None"
    and "Define_raises h (prim_path @ ''/Material/Shader'') = None"
  shows "fst (create_textured_plane_prim h prim_path texture_name w) = Inr (prim_path @ ''/Mesh'') \<and>
    (\<exists>pr. stage (snd (create_textured_plane_prim h prim_path texture_name w))
             (prim_path @ ''/Material/Shader'') = Some pr \<and>
          typeName pr = ''Shader'' \<and>
          attrs pr ''inputs:diffuse_texture'' = Some (AssetVal (''dynamic://'' @ texture_name)))"
  using assms Define_raises_editable [OF assms(1)]
  by (simp add: create_textured_plane_prim_def prog_defs stage_defs Let_def)

theorem create_textured_plane_prim_shader_uri_witness:
  "Define_raises quiet_host (''/World/Thing'' @ ''/Mesh'') = None \<and>
   Define_raises quiet_host (''/World/Thing'' @ ''/Material'') = None \<and>
   Define_raises quiet_host (''/World/Thing'' @ ''/Material/Shader'') = None \<and>
   fst (create_textured_plane_prim quiet_host ''/World/Thing'' ''Thing'' fresh_world) =
     Inr ''/World/Thing/Mesh'' \<and>
   (\<exists>pr. stage (snd (create_textured_plane_prim quiet_host ''/World/Thing'' ''Thing'' fresh_world))
            ''/World/Thing/Material/Shader'' = Some pr \<and>
         typeName pr = ''Shader'' \<and>
         attrs pr ''inputs:diffuse_texture'' = Some (AssetVal ''dynamic://Thing''))"
  using create_textured_plane_prim_shader_uri
    [of quiet_host "''/World/Thing''" "''Thing''" fresh_world]
  by (simp add: Define_raises_def quiet_host_def)

text \<open>
  C2. Building at \<open>/World/Thing\<close> with texture name \<open>Thing\<close>, on any starting document
  and any host that accepts the three paths, returns and leaves at \<open>/World/Thing/Mesh\<close> a
  mesh with the four points, one face of four vertices with indices 0 to 3, and the
  \<open>st\<close> primvar with the four corner coordinates.
\<close>

theorem plane_at_World_Thing_geometry:
  assumes "Define_raises h ''/World/Thing/Mesh'' = None"
    and "Define_raises h ''/World/Thing/Material'' = None"
    and "Define_raises h ''/World/Thing/Material/Shader'' = None"
  shows "fst (create_textured_plane_prim h ''/World/Thing'' ''Thing'' w) = Inr ''/World/Thing/Mesh'' \<and>
    (\<exists>pr. stage (snd (create_textured_plane_prim h ''/World/Thing'' ''Thing'' w))
             ''/World/Thing/Mesh'' = Some pr \<and>
          typeName pr = ''Mesh'' \<and>
          attrs pr ''points'' =
            Some (Point3fArray [(-430, -145, 0), (430, -145, 0), (430, 145, 0), (-430, 145, 0)]) \<and>
          attrs pr ''faceVertexCounts'' = Some (IntArray [4]) \<and>
          attrs pr ''faceVertexIndices'' = Some (IntArray [0, 1, 2, 3]) \<and>
          attrs pr ''primvars:st'' = Some (TexCoord2fArray [(0, 0), (1, 0), (1, 1), (0, 1)]))"
  using assms Define_raises_editable [OF assms(1)]
  by (simp add: create_textured_plane_prim_def prog_defs stage_defs Let_def)

theorem plane_at_World_Thing_geometry_witness:
  "Define_raises quiet_host ''/World/Thing/Mesh'' = None \<and>
   Define_raises quiet_host ''/World/Thing/Material'' = None \<and>
   Define_raises quiet_host ''/World/Thing/Material/Shader'' = None \<and>
   (\<exists>pr. stage (snd (create_textured_plane_prim quiet_host ''/World/Thing'' ''Thing'' reopened_world))
            ''/World/Thing/Mesh'' = Some pr \<and>
         typeName pr = ''Mesh'' \<and>
         attrs pr ''points'' =
           Some (Point3fArray [(-430, -145, 0), (430, -145, 0), (430, 145, 0), (-430, 145, 0)]) \<and>
         attrs pr ''faceVertexCounts'' = Some (IntArray [4]) \<and>
         attrs pr ''faceVertexIndices'' = Some (IntArray [0, 1, 2, 3]) \<and>
         attrs pr ''primvars:st'' = Some (TexCoord2fArray [(0, 0), (1, 0), (1, 1), (0, 1)]))"
  using plane_at_World_Thing_geometry [of quiet_host reopened_world]
  by (simp add: Define_raises_def quiet_host_def)

subsection \<open>The texture uploader\<close>

text \<open>
  C7. \<^verbatim>\<open>create_dynamic_texture\<close> checks nothing: for every buffer, resolution and
  format, whatever the buffer's length, it constructs the provider under the given name
  and hands the host the byte values, the two dimensions and the format as they came.
  It raises exactly when the host's \<^verbatim>\<open>set_bytes_data\<close> does, with the host's exception,
  and otherwise returns the provider holding exactly those values.
\<close>

theorem create_dynamic_texture_unvalidated:
  "trace (snd (create_dynamic_texture h texture_name bytes (rw, rh) format w)) =
     trace w @ [Ev_DynamicTextureProvider texture_name,
                Ev_set_bytes_data texture_name (map uint bytes) [rw, rh] format] \<and>
   fst (create_dynamic_texture h texture_name bytes (rw, rh) format w) =
     (case set_bytes_data_raises h (map uint bytes) [rw, rh] format of
        Some e \<Rightarrow> Inl e
      | None \<Rightarrow> Inr \<lparr>tex_name = texture_name, tex_bytes = map uint bytes,
                      tex_resolution = [rw, rh], tex_format = Some format\<rparr>)"
  by (simp add: media_defs prog_defs Let_def split: option.split)

text \<open>Three bytes declared as a 2 by 2 RGBA image go through.\<close>

theorem create_dynamic_texture_unvalidated_witness:
  "fst (create_dynamic_texture quiet_host ''Thing'' [1, 2, 3] (2, 2) RGBA8_UNORM fresh_world) =
     Inr \<lparr>tex_name = ''Thing'', tex_bytes = [1, 2, 3], tex_resolution = [2, 2],
          tex_format = Some RGBA8_UNORM\<rparr>"
  using create_dynamic_texture_unvalidated
    [of quiet_host "''Thing''" "[1, 2, 3]" 2 2 RGBA8_UNORM fresh_world]
  by (simp add: quiet_host_def)

subsection \<open>Shutdown\<close>

text \<open>
  C6. In every state of the extension, whatever handle it holds, \<^verbatim>\<open>on_shutdown\<close>
  returns without raising and leaves the stored texture handle \<open>None\<close>.
\<close>

theorem on_shutdown_clears_handle:
  "fst (on_shutdown w) = Inr () \<and> self_texture (snd (on_shutdown w)) = None"
  by (simp add: on_shutdown_def assign_texture_def)

subsection \<open>The button handler, step by step\<close>

lemma on_click_create_phases:
  "on_click_create h =
     seq (removal h ''/World/Thing'') (\<lambda>_.
     seq (root_step h) (\<lambda>_.
     seq (create_textured_plane_prim h ''/World/Thing'' ''Thing'') (\<lambda>_.
     seq (Image_open h (joinpath (module_dir h) ''cat.jpg'')) (\<lambda>img.
     seq (convert h img ''RGBA'') (\<lambda>rgba.
     seq (create_dynamic_texture h ''Thing'' (tobytes rgba) (width rgba, height rgba) RGBA8_UNORM)
       (\<lambda>dtp. assign_texture (Some dtp)))))))"
  by (simp add: on_click_create_def root_step_def Let_def seq_assoc)

lemmas click_simps = on_click_create_phases seq_alt removal_fst removal_trace removal_texture
  removal_stage root_fst root_trace root_texture root_stage plane_fst plane_trace plane_texture
  Image_open_fst Image_open_snd convert_fst convert_snd create_dynamic_texture_fst
  create_dynamic_texture_snd assign_texture_fst assign_texture_snd tobytes_def joinpath_def
  record_event_def

lemma accepts_plane:
  assumes "accepts_authoring h"
  shows "Define_raises h (''/World/Thing'' @ ''/Mesh'') = None"
    "Define_raises h (''/World/Thing'' @ ''/Material'') = None"
    "Define_raises h (''/World/Thing'' @ ''/Material/Shader'') = None"
    "Define_raises h ''/World/Thing'' = None"
  using assms by (simp_all add: accepts_authoring_def)

lemma accepts_removal:
  assumes "accepts_authoring h"
  shows "RemovePrim_raises h s p = None"
  using assms by (simp add: accepts_authoring_def Define_raises_None RemovePrim_raises_def)

lemma accepts_quiet: "accepts_authoring quiet_host"
  by (simp add: accepts_authoring_def Define_raises_def quiet_host_def)

lemma accepts_no_file: "accepts_authoring no_file_host"
  by (simp add: accepts_authoring_def Define_raises_def no_file_host_def quiet_host_def)

text \<open>Once the root is defined, the document a click leaves is the one the builder leaves.\<close>

lemma click_stage:
  assumes "Define_raises h ''/World/Thing'' = None"
  shows "stage (snd (on_click_create h w)) =
     stage (snd (create_textured_plane_prim h ''/World/Thing'' ''Thing'' (before_build h w)))"
  using assms
  by (simp add: before_build_def click_simps split: option.split sum.split)

lemma before_build_root:
  assumes "Define_raises h ''/World/Thing'' = None"
  shows "\<exists>root. stage (before_build h w) ''/World/Thing'' = Some root \<and>
     typeName root = ''Xform'' \<and> kind root = Some ''component''"
  using assms
  by (simp add: before_build_def click_simps split: option.split sum.split)

lemma dom_remove_subtree: "dom (remove_subtree t s) = dom s - {q. in_subtree t q}"
  by (auto simp: remove_subtree_def dom_def)

lemma before_build_dom:
  assumes "Define_raises h ''/World/Thing'' = None"
  shows "dom (stage (before_build h w)) = insert ''/World/Thing''
     (case RemovePrim_raises h (stage w) ''/World/Thing'' of
        None \<Rightarrow> dom (stage w) - {q. in_subtree ''/World/Thing'' q}
      | Some e \<Rightarrow> dom (stage w))"
  using assms
  by (simp add: before_build_def click_simps dom_remove_subtree split: option.split sum.split)

lemma click_shader:
  assumes "accepts_authoring h"
  shows "\<exists>pr. stage (snd (on_click_create h w)) ''/World/Thing/Material/Shader'' = Some pr \<and>
     typeName pr = ''Shader'' \<and>
     attrs pr ''inputs:diffuse_texture'' = Some (AssetVal ''dynamic://Thing'')"
  using plane_shader [OF accepts_plane(1-3) [OF assms], of "''Thing''" "before_build h w"]
  by (simp add: click_stage [OF accepts_plane(4) [OF assms]])

lemma click_root:
  assumes "accepts_authoring h"
  shows "\<exists>root. stage (snd (on_click_create h w)) ''/World/Thing'' = Some root \<and>
     typeName root = ''Xform'' \<and> kind root = Some ''component''"
  using before_build_root [OF accepts_plane(4) [OF assms], of w]
  by (simp add: click_stage [OF accepts_plane(4) [OF assms]] plane_stage_frame)

lemma click_dom:
  assumes "accepts_authoring h"
  shows "dom (stage (snd (on_click_create h w))) =
     {''/World/Thing'', ''/World/Thing/Mesh'', ''/World/Thing/Material'',
      ''/World/Thing/Material/Shader''} \<union>
     (case RemovePrim_raises h (stage w) ''/World/Thing'' of
        None \<Rightarrow> dom (stage w) - {q. in_subtree ''/World/Thing'' q}
      | Some e \<Rightarrow> dom (stage w))"
  using plane_dom [OF accepts_plane(1-3) [OF assms], of "''Thing''" "before_build h w"]
  by (auto simp add: click_stage [OF accepts_plane(4) [OF assms]]
        before_build_dom [OF accepts_plane(4) [OF assms]])

text \<open>
  A provider is constructed, and the image opened, only after the build; a provider is
  constructed only under the name \<open>Thing\<close>; a click returns only on a host on which
  nothing raises.
\<close>

lemma click_provider_events:
  assumes "Ev_DynamicTextureProvider n \<in>
     set (drop (length (trace w)) (trace (snd (on_click_create h w))))"
  shows "n = ''Thing'' \<and> accepts_authoring h"
  using assms
  by (simp add: accepts_authoring_def click_simps
      split: option.split_asm sum.split_asm if_split_asm)

lemma click_reaches_image:
  assumes "Ev_Image_open fp \<in>
     set (drop (length (trace w)) (trace (snd (on_click_create h w))))"
  shows "accepts_authoring h"
  using assms
  by (simp add: accepts_authoring_def click_simps
      split: option.split_asm sum.split_asm if_split_asm)

lemma click_returns:
  assumes "fst (on_click_create h w) = Inr ()"
  shows "accepts_authoring h \<and> media_failure h = None \<and>
     (\<exists>dtp. self_texture (snd (on_click_create h w)) = Some dtp \<and> tex_name dtp = ''Thing'')"
  using assms
  by (simp add: accepts_authoring_def media_failure_def click_simps
      split: option.split_asm sum.split_asm if_split_asm)

lemma click_returns_when_rest_ok:
  assumes "accepts_authoring h" and "media_failure h = None"
  shows "fst (on_click_create h w) = Inr ()"
  using assms
  by (simp add: accepts_authoring_def media_failure_def click_simps
      split: option.split sum.split_asm)

subsection \<open>The button handler: the order of its steps\<close>

text \<open>
  C3. Every click that returns has performed, in this order and with nothing between:
  the attempt to remove the prim at \<open>/World/Thing\<close>; the assignment of \<open>None\<close> to the
  stored handle; the definition of the root and the build of the plane; the opening of
  \<open>cat.jpg\<close> in the extension's own directory; its conversion to \<open>RGBA\<close>; the upload of
  the converted image's bytes with its width and height as \<open>RGBA8_UNORM\<close> under the name
  \<open>Thing\<close>; the assignment of the provider returned to the stored handle. This holds on
  every host: a click whose removal raises does not return, since what makes the removal
  raise (no document open, a layer that cannot be edited) makes the creation of the root
  raise too.
\<close>

theorem on_click_create_steps:
  assumes "fst (on_click_create h w) = Inr ()"
  shows "\<exists>img rgba.
     Image_open_result h (joinpath (module_dir h) ''cat.jpg'') = Inr img \<and>
     convert_result h img ''RGBA'' = Inr rgba \<and>
     trace (snd (on_click_create h w)) = trace w @
       [Ev_RemovePrim ''/World/Thing'', Ev_assign_texture None,
        Ev_Define ''Xform'' ''/World/Thing'', Ev_SetKind ''/World/Thing'' ''component'',
        Ev_Define ''Mesh'' ''/World/Thing/Mesh'', Ev_Define ''Material'' ''/World/Thing/Material'',
        Ev_Define ''Shader'' ''/World/Thing/Material/Shader'',
        Ev_Image_open (joinpath (module_dir h) ''cat.jpg''), Ev_convert ''RGBA'',
        Ev_DynamicTextureProvider ''Thing'',
        Ev_set_bytes_data ''Thing'' (map uint (tobytes rgba)) [width rgba, height rgba] RGBA8_UNORM,
        Ev_assign_texture (Some \<lparr>tex_name = ''Thing'', tex_bytes = map uint (tobytes rgba),
           tex_resolution = [width rgba, height rgba], tex_format = Some RGBA8_UNORM\<rparr>)] \<and>
     self_texture (snd (on_click_create h w)) =
       Some \<lparr>tex_name = ''Thing'', tex_bytes = map uint (tobytes rgba),
          tex_resolution = [width rgba, height rgba], tex_format = Some RGBA8_UNORM\<rparr>"
proof -
  from assms have a: "accepts_authoring h" and m: "media_failure h = None"
    using click_returns by blast+
  from m obtain img rgba
    where i: "Image_open_result h (joinpath (module_dir h) ''cat.jpg'') = Inr img"
      and c: "convert_result h img ''RGBA'' = Inr rgba"
      and u: "set_bytes_data_raises h (map uint (tobytes rgba)) [width rgba, height rgba]
           RGBA8_UNORM = None"
    by (auto simp add: media_failure_def split: sum.split_asm)
  have r: "RemovePrim_raises h (stage w) ''/World/Thing'' = None"
    by (rule accepts_removal [OF a])
  have "trace (snd (on_click_create h w)) = trace w @
       [Ev_RemovePrim ''/World/Thing'', Ev_assign_texture None,
        Ev_Define ''Xform'' ''/World/Thing'', Ev_SetKind ''/World/Thing'' ''component'',
        Ev_Define ''Mesh'' ''/World/Thing/Mesh'', Ev_Define ''Material'' ''/World/Thing/Material'',
        Ev_Define ''Shader'' ''/World/Thing/Material/Shader'',
        Ev_Image_open (joinpath (module_dir h) ''cat.jpg''), Ev_convert ''RGBA'',
        Ev_DynamicTextureProvider ''Thing'',
        Ev_set_bytes_data ''Thing'' (map uint (tobytes rgba)) [width rgba, height rgba] RGBA8_UNORM,
        Ev_assign_texture (Some \<lparr>tex_name = ''Thing'', tex_bytes = map uint (tobytes rgba),
           tex_resolution = [width rgba, height rgba], tex_format = Some RGBA8_UNORM\<rparr>)] \<and>
     self_texture (snd (on_click_create h w)) =
       Some \<lparr>tex_name = ''Thing'', tex_bytes = map uint (tobytes rgba),
          tex_resolution = [width rgba, height rgba], tex_format = Some RGBA8_UNORM\<rparr>"
    using a i c u r
    by (simp add: accepts_authoring_def click_simps Define_fst)
  with i c show ?thesis by blast
qed

text \<open>
  A click on the quiet host, with a handle stored and the root of an earlier click in
  the document.
\<close>

theorem on_click_create_steps_witness:
  "fst (on_click_create quiet_host clicked_world) = Inr () \<and>
   trace (snd (on_click_create quiet_host clicked_world)) =
     [Ev_RemovePrim ''/World/Thing'', Ev_assign_texture None,
      Ev_Define ''Xform'' ''/World/Thing'', Ev_SetKind ''/World/Thing'' ''component'',
      Ev_Define ''Mesh'' ''/World/Thing/Mesh'', Ev_Define ''Material'' ''/World/Thing/Material'',
      Ev_Define ''Shader'' ''/World/Thing/Material/Shader'',
      Ev_Image_open [''exts'', ''dynamic_texture_example'', ''cat.jpg''], Ev_convert ''RGBA'',
      Ev_DynamicTextureProvider ''Thing'',
      Ev_set_bytes_data ''Thing'' [10, 20, 30, 255] [1, 1] RGBA8_UNORM,
      Ev_assign_texture (Some old_texture)] \<and>
   self_texture (snd (on_click_create quiet_host clicked_world)) = Some old_texture"
proof -
  have m: "media_failure quiet_host = None"
    by (simp add: media_failure_def example_defs tobytes_def joinpath_def)
  have r: "fst (on_click_create quiet_host clicked_world) = Inr ()"
    by (rule click_returns_when_rest_ok [OF accepts_quiet m])
  show ?thesis
    using on_click_create_steps [OF r] r
    by (auto simp add: example_defs tobytes_def joinpath_def)
qed

text \<open>
  C10. On a host that accepts the four paths, every click defines an \<open>Xform\<close> at
  \<open>/World/Thing\<close> and sets its kind to \<open>component\<close> before the plane builder makes its
  first definition; afterwards the root is that \<open>Xform\<close>, and the mesh, the material and
  the shader are prims below it, at \<open>/World/Thing/Mesh\<close>, \<open>/World/Thing/Material\<close> and
  \<open>/World/Thing/Material/Shader\<close>.
\<close>

theorem on_click_create_root_then_children:
  assumes "accepts_authoring h"
  shows "(\<exists>post. trace (snd (on_click_create h w)) = trace w @
        Ev_RemovePrim ''/World/Thing'' #
        (case RemovePrim_raises h (stage w) ''/World/Thing'' of
           None \<Rightarrow> [Ev_assign_texture None] | Some e \<Rightarrow> []) @
        [Ev_Define ''Xform'' ''/World/Thing'', Ev_SetKind ''/World/Thing'' ''component'',
         Ev_Define ''Mesh'' ''/World/Thing/Mesh'', Ev_Define ''Material'' ''/World/Thing/Material'',
         Ev_Define ''Shader'' ''/World/Thing/Material/Shader''] @ post) \<and>
    (\<exists>root. stage (snd (on_click_create h w)) ''/World/Thing'' = Some root \<and>
       typeName root = ''Xform'' \<and> kind root = Some ''component'') \<and>
    (\<exists>pr. stage (snd (on_click_create h w)) ''/World/Thing/Mesh'' = Some pr \<and>
       typeName pr = ''Mesh'' \<and> material_binding pr = Some ''/World/Thing/Material'') \<and>
    (\<exists>pr. stage (snd (on_click_create h w)) ''/World/Thing/Material'' = Some pr \<and>
       typeName pr = ''Material'') \<and>
    (\<exists>pr. stage (snd (on_click_create h w)) ''/World/Thing/Material/Shader'' = Some pr \<and>
       typeName pr = ''Shader'')"
proof -
  note a = accepts_plane [OF assms]
  have t: "\<exists>post. trace (snd (on_click_create h w)) = trace w @
        Ev_RemovePrim ''/World/Thing'' #
        (case RemovePrim_raises h (stage w) ''/World/Thing'' of
           None \<Rightarrow> [Ev_assign_texture None] | Some e \<Rightarrow> []) @
        [Ev_Define ''Xform'' ''/World/Thing'', Ev_SetKind ''/World/Thing'' ''component'',
         Ev_Define ''Mesh'' ''/World/Thing/Mesh'', Ev_Define ''Material'' ''/World/Thing/Material'',
         Ev_Define ''Shader'' ''/World/Thing/Material/Shader''] @ post"
    using assms
    by (simp add: accepts_authoring_def click_simps Define_fst split: option.split sum.split)
  have mesh: "\<exists>pr. stage (snd (on_click_create h w)) ''/World/Thing/Mesh'' = Some pr \<and>
       typeName pr = ''Mesh'' \<and> material_binding pr = Some ''/World/Thing/Material''"
    using plane_mesh [OF a(1-3), of "''Thing''" "before_build h w"]
    by (simp add: click_stage [OF a(4)])
  have material: "\<exists>pr. stage (snd (on_click_create h w)) ''/World/Thing/Material'' = Some pr \<and>
       typeName pr = ''Material''"
    using plane_material [OF a(1-3), of "''Thing''" "before_build h w"]
    by (auto simp add: click_stage [OF a(4)])
  have shader: "\<exists>pr. stage (snd (on_click_create h w)) ''/World/Thing/Material/Shader'' = Some pr \<and>
       typeName pr = ''Shader''"
    using click_shader [OF assms, of w] by auto
  from t click_root [OF assms, of w] mesh material shader show ?thesis
    by (intro conjI)
qed

theorem on_click_create_root_then_children_witness:
  "accepts_authoring quiet_host \<and>
   (\<exists>root. stage (snd (on_click_create quiet_host fresh_world)) ''/World/Thing'' = Some root \<and>
       typeName root = ''Xform'' \<and> kind root = Some ''component'') \<and>
   (\<exists>pr. stage (snd (on_click_create quiet_host fresh_world)) ''/World/Thing/Mesh'' = Some pr \<and>
       typeName pr = ''Mesh'' \<and> material_binding pr = Some ''/World/Thing/Material'')"
  using on_click_create_root_then_children [OF accepts_quiet, of fresh_world] accepts_quiet
  by simp

subsection \<open>The button handler: the texture name\<close>

text \<open>
  C4. In every execution of the handler, on every host: whenever the click constructs
  a texture provider under a name, the shader's texture input in the document holds
  \<open>dynamic://\<close> followed by that very name; and when the click returns, the name of the
  provider it has stored is the name in the shader's input.
\<close>

theorem on_click_create_names_agree:
  "(\<forall>n. Ev_DynamicTextureProvider n \<in>
          set (drop (length (trace w)) (trace (snd (on_click_create h w)))) \<longrightarrow>
      (\<exists>pr. stage (snd (on_click_create h w)) ''/World/Thing/Material/Shader'' = Some pr \<and>
         attrs pr ''inputs:diffuse_texture'' = Some (AssetVal (''dynamic://'' @ n)))) \<and>
   (fst (on_click_create h w) = Inr () \<longrightarrow>
      (\<exists>dtp pr. self_texture (snd (on_click_create h w)) = Some dtp \<and>
         stage (snd (on_click_create h w)) ''/World/Thing/Material/Shader'' = Some pr \<and>
         attrs pr ''inputs:diffuse_texture'' = Some (AssetVal (''dynamic://'' @ tex_name dtp))))"
proof (intro conjI allI impI)
  fix n
  assume "Ev_DynamicTextureProvider n \<in>
    set (drop (length (trace w)) (trace (snd (on_click_create h w))))"
  then have "n = ''Thing''" and "accepts_authoring h"
    using click_provider_events by blast+
  then show "\<exists>pr. stage (snd (on_click_create h w)) ''/World/Thing/Material/Shader'' = Some pr \<and>
         attrs pr ''inputs:diffuse_texture'' = Some (AssetVal (''dynamic://'' @ n))"
    using click_shader [of h w] by auto
next
  assume "fst (on_click_create h w) = Inr ()"
  then obtain dtp where "accepts_authoring h"
    and "self_texture (snd (on_click_create h w)) = Some dtp" and "tex_name dtp = ''Thing''"
    using click_returns by blast
  then show "\<exists>dtp pr. self_texture (snd (on_click_create h w)) = Some dtp \<and>
         stage (snd (on_click_create h w)) ''/World/Thing/Material/Shader'' = Some pr \<and>
         attrs pr ''inputs:diffuse_texture'' = Some (AssetVal (''dynamic://'' @ tex_name dtp))"
    using click_shader [of h w] by auto
qed

theorem on_click_create_names_agree_witness:
  "Ev_DynamicTextureProvider ''Thing'' \<in> set (drop (length (trace fresh_world))
      (trace (snd (on_click_create quiet_host fresh_world)))) \<and>
   fst (on_click_create quiet_host fresh_world) = Inr () \<and>
   (\<exists>pr. stage (snd (on_click_create quiet_host fresh_world)) ''/World/Thing/Material/Shader'' = Some pr \<and>
      attrs pr ''inputs:diffuse_texture'' = Some (AssetVal (''dynamic://'' @ ''Thing''))) \<and>
   (\<exists>dtp pr. self_texture (snd (on_click_create quiet_host fresh_world)) = Some dtp \<and>
      stage (snd (on_click_create quiet_host fresh_world)) ''/World/Thing/Material/Shader'' = Some pr \<and>
      attrs pr ''inputs:diffuse_texture'' = Some (AssetVal (''dynamic://'' @ tex_name dtp)))"
proof -
  have m: "media_failure quiet_host = None"
    by (simp add: media_failure_def example_defs tobytes_def joinpath_def)
  have r: "fst (on_click_create quiet_host fresh_world) = Inr ()"
    by (rule click_returns_when_rest_ok [OF accepts_quiet m])
  have e: "Ev_DynamicTextureProvider ''Thing'' \<in> set (drop (length (trace fresh_world))
      (trace (snd (on_click_create quiet_host fresh_world))))"
    using accepts_quiet accepts_removal [OF accepts_quiet, of "stage fresh_world" "''/World/Thing''"]
    by (simp add: accepts_authoring_def click_simps Define_fst quiet_host_def)
  show ?thesis
    using on_click_create_names_agree [of fresh_world quiet_host] e r by blast
qed

subsection \<open>The button handler: failures\<close>

text \<open>
  C5. On every host and in every document, with or without a prim at the path, the
  handler goes on after the removal step: the step after the removal attempt (and after
  the assignment that follows a removal that returned) is the definition of the root,
  whether or not the removal raised. When no later call raises, the handler returns,
  so an exception of the removal call is never the handler's.
\<close>

theorem on_click_create_swallows_removal_failure:
  "(\<exists>rest. trace (snd (on_click_create h w)) =
      trace w @ Ev_RemovePrim ''/World/Thing'' #
        (case RemovePrim_raises h (stage w) ''/World/Thing'' of
           None \<Rightarrow> [Ev_assign_texture None] | Some e \<Rightarrow> [])
        @ Ev_Define ''Xform'' ''/World/Thing'' # rest) \<and>
   (accepts_authoring h \<and> media_failure h = None \<longrightarrow> fst (on_click_create h w) = Inr ())"
proof (intro conjI impI)
  show "\<exists>rest. trace (snd (on_click_create h w)) =
      trace w @ Ev_RemovePrim ''/World/Thing'' #
        (case RemovePrim_raises h (stage w) ''/World/Thing'' of
           None \<Rightarrow> [Ev_assign_texture None] | Some e \<Rightarrow> [])
        @ Ev_Define ''Xform'' ''/World/Thing'' # rest"
    by (simp add: click_simps split: option.split sum.split)
next
  assume "accepts_authoring h \<and> media_failure h = None"
  then show "fst (on_click_create h w) = Inr ()"
    using click_returns_when_rest_ok by blast
qed

text \<open>
  On the quiet host the click returns. On the host with no document open the removal
  raises \<^verbatim>\<open>AttributeError\<close>, and the definition of the root is attempted all the same.
\<close>

theorem on_click_create_swallows_removal_failure_witness:
  "accepts_authoring quiet_host \<and> media_failure quiet_host = None \<and>
   fst (on_click_create quiet_host clicked_world) = Inr () \<and>
   RemovePrim_raises closed_host (stage clicked_world) ''/World/Thing'' =
     Some (Exception ''AttributeError'') \<and>
   (\<exists>rest. trace (snd (on_click_create closed_host clicked_world)) =
      Ev_RemovePrim ''/World/Thing'' # Ev_Define ''Xform'' ''/World/Thing'' # rest)"
proof -
  have m: "media_failure quiet_host = None"
    by (simp add: media_failure_def example_defs tobytes_def joinpath_def)
  have r: "RemovePrim_raises closed_host (stage clicked_world) ''/World/Thing'' =
     Some (Exception ''AttributeError'')"
    by (simp add: RemovePrim_raises_def closed_host_def)
  have t: "trace clicked_world = []"
    by (simp add: clicked_world_def)
  show ?thesis
    using on_click_create_swallows_removal_failure [of quiet_host clicked_world]
      on_click_create_swallows_removal_failure [of closed_host clicked_world]
      accepts_quiet m r t
    by simp
qed

text \<open>
  The two ways in which the removal raises, in a click with a handle stored and a root
  in the document. With no document open the click ends in \<^verbatim>\<open>Define\<close>; with a layer
  that cannot be edited \<^verbatim>\<open>Define\<close> hands back the root that is there and the click ends
  in \<^verbatim>\<open>SetKind\<close>. Either way the click raises before the build, with the handle as it
  was.
\<close>

lemma closed_host_click_aborts:
  "fst (on_click_create closed_host clicked_world) = Inl (Exception ''invalid stage'') \<and>
   trace (snd (on_click_create closed_host clicked_world)) =
     [Ev_RemovePrim ''/World/Thing'', Ev_Define ''Xform'' ''/World/Thing''] \<and>
   self_texture (snd (on_click_create closed_host clicked_world)) = Some old_texture"
  by (simp add: click_simps Define_fst host_defs closed_host_def quiet_host_def clicked_world_def)

lemma readonly_host_click_aborts:
  "fst (on_click_create readonly_host clicked_world) = Inl (Exception ''layer not editable'') \<and>
   trace (snd (on_click_create readonly_host clicked_world)) =
     [Ev_RemovePrim ''/World/Thing'', Ev_Define ''Xform'' ''/World/Thing'',
      Ev_SetKind ''/World/Thing'' ''component''] \<and>
   self_texture (snd (on_click_create readonly_host clicked_world)) = Some old_texture"
  by (simp add: click_simps Define_fst host_defs readonly_host_def quiet_host_def clicked_world_def
      new_prim_def)

text \<open>
  C9. In every click that gets as far as opening the image, and in which opening the
  image, converting it or handing the bytes to the provider raises, the handler raises
  that same exception and the stored handle is \<open>None\<close> afterwards, whatever it was
  before. This holds on every host: a click gets as far as the image only when the
  removal returned, and then the handle was cleared.
\<close>

theorem on_click_create_media_failure_propagates:
  assumes "Ev_Image_open (joinpath (module_dir h) ''cat.jpg'') \<in>
      set (drop (length (trace w)) (trace (snd (on_click_create h w))))"
    and "media_failure h = Some e"
  shows "fst (on_click_create h w) = Inl e \<and> self_texture (snd (on_click_create h w)) = None"
proof -
  from assms(1) have a: "accepts_authoring h"
    by (rule click_reaches_image)
  have r: "RemovePrim_raises h (stage w) ''/World/Thing'' = None"
    by (rule accepts_removal [OF a])
  show ?thesis
    using a r assms(2)
    by (simp add: accepts_authoring_def media_failure_def click_simps
        split: option.split sum.split_asm)
qed

text \<open>The image file is missing, in a click with a handle stored and no prim at the path:
  the removal returns, the handle is cleared, and the file error is the click's.\<close>

theorem on_click_create_media_failure_propagates_witness:
  "Ev_Image_open (joinpath (module_dir no_file_host) ''cat.jpg'') \<in>
      set (drop (length (trace reopened_world)) (trace (snd (on_click_create no_file_host reopened_world)))) \<and>
   media_failure no_file_host = Some (Exception ''FileNotFoundError'') \<and>
   self_texture reopened_world = Some old_texture \<and>
   fst (on_click_create no_file_host reopened_world) = Inl (Exception ''FileNotFoundError'') \<and>
   self_texture (snd (on_click_create no_file_host reopened_world)) = None"
proof -
  have m: "media_failure no_file_host = Some (Exception ''FileNotFoundError'')"
    by (simp add: media_failure_def no_file_host_def)
  have i: "Ev_Image_open (joinpath (module_dir no_file_host) ''cat.jpg'') \<in>
      set (drop (length (trace reopened_world)) (trace (snd (on_click_create no_file_host reopened_world))))"
    using accepts_no_file accepts_removal [OF accepts_no_file, of "stage reopened_world" "''/World/Thing''"]
    by (simp add: accepts_authoring_def click_simps Define_fst no_file_host_def)
  show ?thesis
    using on_click_create_media_failure_propagates [OF i m] i m
    by (simp add: reopened_world_def)
qed

subsection \<open>Two clicks\<close>

text \<open>
  C8. Two clicks in succession, on hosts that accept the four paths: the second click
  adds no prim to the document the first one left, the prim at \<open>/World/Thing\<close> is the one
  root, and when the second click's removal returned, the prims at or below
  \<open>/World/Thing\<close> are exactly the root, the mesh, the material and the shader that the
  second click rebuilt.
\<close>

theorem second_click_leaves_one_subtree:
  assumes "accepts_authoring h1" and "accepts_authoring h2"
  shows "dom (stage (snd (on_click_create h2 (snd (on_click_create h1 w))))) \<subseteq>
       dom (stage (snd (on_click_create h1 w))) \<and>
    (\<exists>root. stage (snd (on_click_create h2 (snd (on_click_create h1 w)))) ''/World/Thing'' = Some root \<and>
       typeName root = ''Xform'' \<and> kind root = Some ''component'') \<and>
    (RemovePrim_raises h2 (stage (snd (on_click_create h1 w))) ''/World/Thing'' = None \<longrightarrow>
       {q. in_subtree ''/World/Thing'' q \<and>
           q \<in> dom (stage (snd (on_click_create h2 (snd (on_click_create h1 w)))))} =
       {''/World/Thing'', ''/World/Thing/Mesh'', ''/World/Thing/Material'',
        ''/World/Thing/Material/Shader''})"
proof (intro conjI impI)
  let ?w1 = "snd (on_click_create h1 w)"
  have four: "{''/World/Thing'', ''/World/Thing/Mesh'', ''/World/Thing/Material'',
      ''/World/Thing/Material/Shader''} \<subseteq> dom (stage ?w1)"
    by (simp add: click_dom [OF assms(1)])
  show "dom (stage (snd (on_click_create h2 ?w1))) \<subseteq> dom (stage ?w1)"
    using four by (auto simp add: click_dom [OF assms(2)] split: option.split)
  show "\<exists>root. stage (snd (on_click_create h2 ?w1)) ''/World/Thing'' = Some root \<and>
       typeName root = ''Xform'' \<and> kind root = Some ''component''"
    by (rule click_root [OF assms(2)])
  assume "RemovePrim_raises h2 (stage ?w1) ''/World/Thing'' = None"
  then show "{q. in_subtree ''/World/Thing'' q \<and> q \<in> dom (stage (snd (on_click_create h2 ?w1)))} =
       {''/World/Thing'', ''/World/Thing/Mesh'', ''/World/Thing/Material'',
        ''/World/Thing/Material/Shader''}"
    by (auto simp add: click_dom [OF assms(2)] in_subtree_def)
qed

text \<open>Two clicks on the quiet host, from an empty document.\<close>

theorem second_click_leaves_one_subtree_witness:
  "accepts_authoring quiet_host \<and>
   RemovePrim_raises quiet_host (stage (snd (on_click_create quiet_host fresh_world)))
     ''/World/Thing'' = None \<and>
   dom (stage (snd (on_click_create quiet_host (snd (on_click_create quiet_host fresh_world))))) \<subseteq>
       dom (stage (snd (on_click_create quiet_host fresh_world))) \<and>
   {q. in_subtree ''/World/Thing'' q \<and>
       q \<in> dom (stage (snd (on_click_create quiet_host
                (snd (on_click_create quiet_host fresh_world)))))} =
   {''/World/Thing'', ''/World/Thing/Mesh'', ''/World/Thing/Material'',
    ''/World/Thing/Material/Shader''}"
proof -
  have r: "RemovePrim_raises quiet_host (stage (snd (on_click_create quiet_host fresh_world)))
      ''/World/Thing'' = None"
    by (rule accepts_removal [OF accepts_quiet])
  show ?thesis
    using second_click_leaves_one_subtree [OF accepts_quiet accepts_quiet, of fresh_world]
      accepts_quiet r
    by simp
qed

subsection \<open>Startup\<close>

text \<open>
  As the source stands, \<^verbatim>\<open>on_startup\<close> clears the handle, creates the window and then
  raises before any button exists. The theorems on \<open>on_click_create\<close> above are about the
  handler as a function, whoever calls it.
\<close>

lemma on_startup_raises:
  "fst (on_startup ext_id w) = Inl (Exception ''UnboundLocalError'') \<and>
   self_texture (snd (on_startup ext_id w)) = None"
  by (simp add: on_startup_def Window_def prog_defs)

end
